theory Spec2Isabelle
  imports Main "HOL-Library.Word" "HOL-Library.Signed_Division"
begin

unbundle bit_operations_syntax

section \<open>Go values\<close>

text \<open>
  A Go \<open>string\<close> and a Go \<open>[]byte\<close> are both sequences of bytes; the conversion
  \<open>[]byte(cmd)\<close> copies the bytes of the string unchanged. A Go \<open>int\<close> is modelled as
  \<open>int\<close> (no arithmetic of the modelled functions can leave the 64-bit range), a
  \<open>uint8\<close> as \<open>8 word\<close>.
\<close>

type_synonym byte = "8 word"
type_synonym gostring = "byte list"

text \<open>Go \<open>error\<close> values are opaque here: a non-nil error is \<open>Some (Error k)\<close>.\<close>

datatype error = Error nat

subsection \<open>The formatting verbs of package fmt used by the source\<close>

text \<open>
  \<open>unicode/utf8.AppendRune\<close>: the UTF-8 encoding of a code point. Code points up to
  \<open>0x7F\<close> are one byte, up to \<open>0x7FF\<close> two bytes, and so on; surrogates and values
  out of range are encoded as U+FFFD (\<open>EF BF BD\<close>).
\<close>

definition utf8_AppendRune :: "int \<Rightarrow> byte list" where
  "utf8_AppendRune r =
     (if r < 0 then [0xEF, 0xBF, 0xBD]
      else if r \<le> 0x7F then [word_of_int r]
      else if r \<le> 0x7FF then
        [0xC0 OR word_of_int (drop_bit 6 r), 0x80 OR (word_of_int r AND 0x3F)]
      else if r < 0xD800 \<or> (0xDFFF < r \<and> r \<le> 0xFFFF) then
        [0xE0 OR word_of_int (drop_bit 12 r),
         0x80 OR (word_of_int (drop_bit 6 r) AND 0x3F),
         0x80 OR (word_of_int r AND 0x3F)]
      else if r > 0xFFFF \<and> r \<le> 0x10FFFF then
        [0xF0 OR word_of_int (drop_bit 18 r),
         0x80 OR (word_of_int (drop_bit 12 r) AND 0x3F),
         0x80 OR (word_of_int (drop_bit 6 r) AND 0x3F),
         0x80 OR (word_of_int r AND 0x3F)]
      else [0xEF, 0xBF, 0xBD])"

text \<open>
  The verb \<open>%c\<close> applied to an integer: fmt prints "the character represented by the
  corresponding Unicode code point", that is, its UTF-8 encoding (\<open>fmt.fmtC\<close>: a value
  above \<open>utf8.MaxRune\<close> becomes \<open>utf8.RuneError\<close>; a negative \<open>int\<close> is such a value
  once converted to \<open>uint64\<close>).
\<close>

definition fmt_c :: "int \<Rightarrow> gostring" where
  "fmt_c c = utf8_AppendRune (if c < 0 \<or> c > 0x10FFFF then 0xFFFD else c)"

text \<open>The verbs \<open>%d\<close> and \<open>%v\<close> applied to an \<open>int\<close>: its decimal digits in ASCII.\<close>

fun digits :: "nat \<Rightarrow> gostring" where
  "digits n = (if n < 10 then [0x30 + of_nat n]
               else digits (n div 10) @ [0x30 + of_nat (n mod 10)])"

declare digits.simps [simp del]

definition fmt_d :: "int \<Rightarrow> gostring" where
  "fmt_d i = (if i < 0 then 0x2D # digits (nat (- i)) else digits (nat i))"

section \<open>The connection and its trace\<close>

text \<open>
  \<open>Printer.s\<close> is an \<open>io.ReadWriteCloser\<close>. Every call the printer makes on a
  collaborator is recorded in a trace; the outcome of a call on the stream is a function
  of the trace so far and of the call's argument, so a stream may fail at any call.
  \<^item> \<open>WriteCall data err\<close>: \<open>s.Write(data)\<close> returned \<open>err\<close>;
  \<^item> \<open>ReadCall n got err\<close>: \<open>s.Read(buf)\<close> with \<open>len(buf) = n\<close> stored the bytes
    \<open>got\<close> at the front of \<open>buf\<close> and returned \<open>err\<close>;
  \<^item> \<open>DeadlineCall\<close>: \<open>f.SetWriteDeadline\<close> was called;
  \<^item> \<open>EncodeCall data\<close>: \<open>converter.Encode(data)\<close> was called.
\<close>

datatype event =
    WriteCall "byte list" "error option"
  | ReadCall nat "byte list" "error option"
  | DeadlineCall
  | EncodeCall "byte list"

type_synonym trace = "event list"

record ReadWriteCloser =
  Write :: "trace \<Rightarrow> byte list \<Rightarrow> error option"
  Read :: "trace \<Rightarrow> nat \<Rightarrow> byte list \<times> error option"

text \<open>\<open>type Printer struct { s io.ReadWriteCloser; f *os.File }\<close>; \<open>f p\<close> is \<open>p.f != nil\<close>.\<close>

record Printer =
  s :: ReadWriteCloser
  f :: bool

text \<open>\<open>NewPrinterByRW\<close>: the printer owns the stream, \<open>f\<close> stays \<open>nil\<close>, the error is \<open>nil\<close>.\<close>

definition NewPrinterByRW :: "ReadWriteCloser \<Rightarrow> Printer \<times> error option" where
  "NewPrinterByRW rwc = (\<lparr> s = rwc, f = False \<rparr>, None)"

text \<open>
  The data of the \<open>Write\<close> calls of a trace, the buffer sizes of its \<open>Read\<close> calls and
  the arguments of its \<open>Encode\<close> calls, each in call order.
\<close>

fun written :: "trace \<Rightarrow> byte list list" where
  "written [] = []"
| "written (WriteCall d e # es) = d # written es"
| "written (ev # es) = written es"

fun reads :: "trace \<Rightarrow> nat list" where
  "reads [] = []"
| "reads (ReadCall n g e # es) = n # reads es"
| "reads (ev # es) = reads es"

fun encodes :: "trace \<Rightarrow> byte list list" where
  "encodes [] = []"
| "encodes (EncodeCall d # es) = d # encodes es"
| "encodes (ev # es) = encodes es"

section \<open>Writing to the printer\<close>

text \<open>\<open>WriteBytes\<close> (src/epson.go): set the write deadline when there is a file, then write.\<close>

definition WriteBytes :: "Printer \<Rightarrow> byte list \<Rightarrow> trace \<Rightarrow> error option \<times> trace" where
  "WriteBytes p data tr =
     (let tr1 = (if f p then tr @ [DeadlineCall] else tr);
          err = Write (s p) tr1 data
      in (err, tr1 @ [WriteCall data err]))"

text \<open>
  Modelled from the spec: the method \<open>write(cmd string)\<close> that every command of the
  source calls is declared outside src/. The spec's Transport Adapter "wraps a byte-stream
  connection, exposes write(bytes) -> error ... and optionally enforces a write deadline";
  "an optional write deadline may be applied to each write when the transport exposes a
  deadline-setting capability". This is what \<open>WriteBytes\<close> of src/epson.go does for a
  byte slice; \<open>write_cmd\<close> does it for the bytes of the string \<open>cmd\<close> (the name
  \<open>write\<close> itself is a reserved word of Isabelle).
\<close>

definition write_cmd :: "Printer \<Rightarrow> gostring \<Rightarrow> trace \<Rightarrow> error option \<times> trace" where
  "write_cmd p cmd tr = WriteBytes p cmd tr"

section \<open>Commands\<close>

text \<open>\<open>SetDoubleHeight\<close> and \<open>SetDoubleWidth\<close> (src/epson.go).\<close>

definition SetDoubleHeight :: "Printer \<Rightarrow> bool \<Rightarrow> trace \<Rightarrow> error option \<times> trace" where
  "SetDoubleHeight p doubleHeight tr =
     (if doubleHeight then WriteBytes p [0x1C, 0x21, 0x08] tr
      else WriteBytes p [0x1C, 0x21, 0x00] tr)"

definition SetDoubleWidth :: "Printer \<Rightarrow> bool \<Rightarrow> trace \<Rightarrow> error option \<times> trace" where
  "SetDoubleWidth p doubleWidth tr =
     (if doubleWidth then WriteBytes p [0x1C, 0x21, 0x04] tr
      else WriteBytes p [0x1C, 0x21, 0x00] tr)"

text \<open>
  \<open>SetCharacterSet\<close>: src/epson.go takes a \<open>uint8\<close> and writes it as one byte;
  src/unnamed/part_000 takes an \<open>int\<close> and formats it with \<open>%d\<close>.
\<close>

definition SetCharacterSet :: "Printer \<Rightarrow> byte \<Rightarrow> trace \<Rightarrow> error option \<times> trace" where
  "SetCharacterSet p n tr = WriteBytes p [0x1B, 0x52, n] tr"

definition SetCharacterSet_part_000 :: "Printer \<Rightarrow> int \<Rightarrow> trace \<Rightarrow> error option \<times> trace" where
  "SetCharacterSet_part_000 p n tr = write_cmd p ([0x1B, 0x52] @ fmt_d n) tr"

text \<open>\<open>Size\<close>: the arithmetic is on \<open>uint8\<close>, the byte is formatted with \<open>%c\<close>.\<close>

definition Size :: "Printer \<Rightarrow> byte \<Rightarrow> byte \<Rightarrow> trace \<Rightarrow> error option \<times> trace" where
  "Size p width height tr =
     write_cmd p ([0x1D, 0x21] @ fmt_c (uint (push_bit 4 (width - 1) OR (height - 1)))) tr"

text \<open>
  \<open>PrintAreaWidth\<close>: \<open>uint8(x)\<close> keeps the low eight bits; Go's \<open>/\<close> and \<open>%\<close> truncate
  towards zero (\<open>sdiv\<close>, \<open>smod\<close>).
\<close>

definition PrintAreaWidth :: "Printer \<Rightarrow> int \<Rightarrow> trace \<Rightarrow> error option \<times> trace" where
  "PrintAreaWidth p width tr =
     (let (nh, nl) =
            (if width < 256 then (0 :: byte, word_of_int width :: byte)
             else (word_of_int (width sdiv 256), word_of_int (width smod 256)))
      in write_cmd p ([0x1D, 0x57] @ fmt_c (uint nl) @ fmt_c (uint nh)) tr)"


section \<open>Text printing\<close>

text \<open>
  The package variable \<open>converter\<close> (a \<open>characterConverter\<close>) and the function
  \<open>textReplace\<close> are declared outside src/, and so are the constants of
  \<open>BarcodeType\<close>. They are parameters of the model: \<open>converter_Encode\<close> gives the
  bytes and the error of \<open>converter.Encode\<close> (its count is ignored by the source),
  \<open>barcode_code\<close> the byte that \<open>%s\<close> prints for a barcode type (by the spec each
  type "maps to a one-byte protocol identifier"). \<open>BarcodeTypeOther\<close> stands for the
  values of the type that are none of the eight constants.
\<close>

datatype BarcodeType =
    BarcodeTypeUPCA | BarcodeTypeUPCE | BarcodeTypeEAN13 | BarcodeTypeEAN8
  | BarcodeTypeCODE39 | BarcodeTypeITF | BarcodeTypeCODABAR | BarcodeTypeCODE128
  | BarcodeTypeOther gostring

record deps =
  converter_Encode :: "byte list \<Rightarrow> byte list \<times> error option"
  textReplace :: "gostring \<Rightarrow> gostring"
  barcode_code :: "BarcodeType \<Rightarrow> byte"

definition Print :: "deps \<Rightarrow> Printer \<Rightarrow> gostring \<Rightarrow> trace \<Rightarrow> error option \<times> trace" where
  "Print d p data tr =
     (if data = [] then (None, tr)
      else
        let (b, err) = converter_Encode d data;
            tr1 = tr @ [EncodeCall data]
        in if err \<noteq> None then (err, tr1)
           else write_cmd p (textReplace d b) tr1)"

definition PrintLn :: "deps \<Rightarrow> Printer \<Rightarrow> gostring \<Rightarrow> trace \<Rightarrow> error option \<times> trace" where
  "PrintLn d p data tr =
     (let (err, tr1) = Print d p data tr
      in if err \<noteq> None then (err, tr1)
         else write_cmd p [0x0A] tr1)"

section \<open>Barcodes\<close>

text \<open>A call either returns or panics (\<open>panic("unimplemented barcode")\<close>).\<close>

datatype 'a outcome = Return 'a | Panic string

text \<open>
  \<open>Barcode\<close>: the cases UPC-A to CODABAR fall through to one format string; in the
  CODE128 case \<open>len(barcode)\<close> is an \<open>int\<close> formatted with \<open>%v\<close>; any other value of
  the type reaches \<open>default\<close> and panics, after the two set-up frames.
\<close>

definition Barcode ::
  "deps \<Rightarrow> Printer \<Rightarrow> gostring \<Rightarrow> BarcodeType \<Rightarrow> trace \<Rightarrow> error option outcome \<times> trace" where
  "Barcode d p barcode format tr =
     (let (err, tr1) = write_cmd p [0x1d, 0x77, 0x04, 0x1d, 0x68, 0x64] tr
      in if err \<noteq> None then (Return err, tr1)
      else
        let (err, tr2) = write_cmd p [0x1d, 0x66, 0x00] tr1
        in if err \<noteq> None then (Return err, tr2)
        else
          (case
             (if format \<in> set [BarcodeTypeUPCA, BarcodeTypeUPCE, BarcodeTypeEAN13,
                                BarcodeTypeEAN8, BarcodeTypeCODE39, BarcodeTypeITF,
                                BarcodeTypeCODABAR]
              then Return (write_cmd p ([0x1d, 0x6b] @ [barcode_code d format]
                             @ barcode @ [0x00]) tr2)
              else if format = BarcodeTypeCODE128
              then Return (write_cmd p ([0x1d, 0x6b] @ [barcode_code d format]
                             @ fmt_d (int (length barcode)) @ barcode @ [0x00]) tr2)
              else Panic ''unimplemented barcode'')
           of
             Panic msg \<Rightarrow> (Panic msg, tr2)
           | Return (err, tr3) \<Rightarrow>
               if err \<noteq> None then (Return err, tr3)
               else (let (err, tr4) = PrintLn d p barcode tr3 in (Return err, tr4))))"

text \<open>
  \<open>twodimensionBarcode\<close>: the result of every \<open>p.write\<close> is dropped, and the function
  returns \<open>nil\<close>.
\<close>

definition twodimensionBarcode ::
  "Printer \<Rightarrow> gostring \<Rightarrow> gostring \<Rightarrow> int \<Rightarrow> trace \<Rightarrow> error option \<times> trace" where
  "twodimensionBarcode p codetype code size0 tr =
     (let size = (if size0 < 2 \<or> size0 > 16 then 3 else size0);
          twoDbar = [0x1d, 0x28, 0x6b];
          tr1 = snd (write_cmd p (twoDbar @ [0x03, 0x00] @ codetype @ [0x43] @ fmt_c size) tr);
          tr2 = (if codetype = [0x31]
                 then snd (write_cmd p (twoDbar @ [0x03, 0x00] @ codetype @ [0x45, 0x30, 0x0A]) tr1)
                 else tr1);
          codePL0 = int (length code) + 3;
          codePH = codePL0 sdiv 256;
          codePL = codePL0 smod 256;
          tr3 = snd (write_cmd p (twoDbar @ fmt_c codePL @ fmt_c codePH @ codetype
                               @ [0x50, 0x30] @ code) tr2);
          tr4 = snd (write_cmd p (twoDbar @ [0x03, 0x00] @ codetype @ [0x51, 0x30, 0x0A]) tr3)
      in (None, tr4))"

definition QR :: "Printer \<Rightarrow> gostring \<Rightarrow> int \<Rightarrow> trace \<Rightarrow> error option \<times> trace" where
  "QR p code size0 tr = twodimensionBarcode p [0x31] code size0 tr"

definition PDF417 :: "Printer \<Rightarrow> gostring \<Rightarrow> int \<Rightarrow> trace \<Rightarrow> error option \<times> trace" where
  "PDF417 p code size0 tr = twodimensionBarcode p [0x30] code size0 tr"

definition Aztec :: "Printer \<Rightarrow> gostring \<Rightarrow> int \<Rightarrow> trace \<Rightarrow> error option \<times> trace" where
  "Aztec p code size0 tr = twodimensionBarcode p [0x35] code size0 tr"

definition DataMatrix :: "Printer \<Rightarrow> gostring \<Rightarrow> int \<Rightarrow> trace \<Rightarrow> error option \<times> trace" where
  "DataMatrix p code size0 tr = twodimensionBarcode p [0x36] code size0 tr"

section \<open>Status query\<close>

text \<open>
  \<open>ErrorStatus\<close> is declared outside src/; the conversion \<open>ErrorStatus(data[0])\<close> from a
  byte makes it a one-byte value. \<open>GetErrorStatus\<close> calls \<open>p.s.Write\<close> and \<open>p.s.Read\<close>
  directly. \<open>Read\<close> stores at most \<open>len(data)\<close> bytes at the front of \<open>data\<close>, which
  \<open>make\<close> filled with zeros.
\<close>

type_synonym ErrorStatus = byte

definition GetErrorStatus :: "Printer \<Rightarrow> trace \<Rightarrow> (ErrorStatus \<times> error option) \<times> trace" where
  "GetErrorStatus p tr =
     (let err = Write (s p) tr [0x10, 0x04, 0x02];
          tr1 = tr @ [WriteCall [0x10, 0x04, 0x02] err]
      in if err \<noteq> None then ((0, err), tr1)
      else
        let data0 = replicate 1 (0 :: byte);
            (got, err) = Read (s p) tr1 (length data0);
            data = take (length data0) (got @ drop (length got) data0);
            tr2 = tr1 @ [ReadCall (length data0) got err]
        in if err \<noteq> None then ((0, err), tr2)
           else ((data ! 0, None), tr2))"


section \<open>Streams used in the examples\<close>

text \<open>
  Three concrete streams: one on which every write succeeds and every read delivers the
  byte \<open>st\<close>; one on which every call fails; one on which writes succeed and reads fail.
\<close>

definition steady_stream :: "byte \<Rightarrow> ReadWriteCloser" where
  "steady_stream st = \<lparr> Write = (\<lambda>tr data. None), Read = (\<lambda>tr n. ([st], None)) \<rparr>"

definition broken_stream :: ReadWriteCloser where
  "broken_stream =
     \<lparr> Write = (\<lambda>tr data. Some (Error 1)), Read = (\<lambda>tr n. ([], Some (Error 2))) \<rparr>"

definition mute_stream :: ReadWriteCloser where
  "mute_stream = \<lparr> Write = (\<lambda>tr data. None), Read = (\<lambda>tr n. ([], Some (Error 2))) \<rparr>"

section \<open>Traces of the write helpers\<close>

lemma written_append: "written (a @ b) = written a @ written b"
  by (induction a rule: written.induct) simp_all

lemma reads_append: "reads (a @ b) = reads a @ reads b"
  by (induction a rule: reads.induct) simp_all

lemma encodes_append: "encodes (a @ b) = encodes a @ encodes b"
  by (induction a rule: encodes.induct) simp_all

lemma written_WriteBytes: "written (snd (WriteBytes p data tr)) = written tr @ [data]"
  by (simp add: WriteBytes_def Let_def written_append)

lemma written_write_cmd: "written (snd (write_cmd p cmd tr)) = written tr @ [cmd]"
  by (simp add: write_cmd_def written_WriteBytes)

section \<open>What \<open>%c\<close> prints\<close>

text \<open>A value up to \<open>0x7F\<close> is printed as itself, one byte.\<close>

lemma fmt_c_ascii: "0 \<le> c \<Longrightarrow> c \<le> 0x7F \<Longrightarrow> fmt_c c = [word_of_int c]"
  by (simp add: fmt_c_def utf8_AppendRune_def)

lemma fmt_c_byte_low: "b \<le> 0x7F \<Longrightarrow> fmt_c (uint b) = [b]" for b :: byte
  by (simp add: fmt_c_ascii word_le_def)

text \<open>A byte from \<open>0x80\<close> on is printed as two bytes, neither of them the byte itself.\<close>

lemma fmt_c_byte_high:
  "0x80 \<le> b \<Longrightarrow> fmt_c (uint b) = [0xC0 OR drop_bit 6 b, 0x80 OR (b AND 0x3F)]" for b :: byte
proof -
  assume h: "0x80 \<le> b"
  have lo: "128 \<le> uint b" using h by (simp add: word_le_def)
  have hi: "uint b < 256" using uint_bounded [of b] by simp
  have "uint (drop_bit 6 b) = drop_bit 6 (uint b)"
    using hi lo by (simp add: unsigned_drop_bit_eq take_bit_int_eq_self)
  then have d: "(word_of_int (drop_bit 6 (uint b)) :: byte) = drop_bit 6 b"
    by (metis word_of_int_uint)
  show ?thesis using lo hi d
    by (simp add: fmt_c_def utf8_AppendRune_def)
qed

section \<open>Double height and double width\<close>

text \<open>
  C9. \<open>SetDoubleHeight(true)\<close> writes exactly the frame \<open>1C 21 08\<close>,
  \<open>SetDoubleWidth(true)\<close> exactly \<open>1C 21 04\<close>, and both write \<open>1C 21 00\<close> for
  \<open>false\<close>, where the two calls are the same call. Each call is one write of the shared
  mode byte, and the mode byte written (the last byte of the last write) never has the
  bits \<open>08\<close> and \<open>04\<close> set together, whatever the argument.
\<close>

theorem SetDouble_frames:
  "written (snd (SetDoubleHeight p True tr)) = written tr @ [[0x1C, 0x21, 0x08]]
   \<and> written (snd (SetDoubleWidth p True tr)) = written tr @ [[0x1C, 0x21, 0x04]]
   \<and> written (snd (SetDoubleHeight p False tr)) = written tr @ [[0x1C, 0x21, 0x00]]
   \<and> written (snd (SetDoubleWidth p False tr)) = written tr @ [[0x1C, 0x21, 0x00]]
   \<and> SetDoubleHeight p False tr = SetDoubleWidth p False tr
   \<and> last (last (written (snd (SetDoubleHeight p b tr)))) AND 0x0C \<noteq> 0x0C
   \<and> last (last (written (snd (SetDoubleWidth p b tr)))) AND 0x0C \<noteq> 0x0C"
  by (simp add: SetDoubleHeight_def SetDoubleWidth_def written_WriteBytes)

section \<open>Printing the empty string\<close>

text \<open>
  C8. \<open>Print("")\<close> returns \<open>nil\<close> and leaves the trace as it was: no write on the
  stream and no call of the character converter, whatever the converter is.
\<close>

theorem Print_empty:
  "Print d p [] tr = (None, tr)
   \<and> written (snd (Print d p [] tr)) = written tr
   \<and> encodes (snd (Print d p [] tr)) = encodes tr"
  by (simp add: Print_def)

section \<open>Two-dimensional symbols\<close>

text \<open>The writes of \<open>twodimensionBarcode\<close>, in order, for any stream and any arguments.\<close>

lemma twodimensionBarcode_written:
  "written (snd (twodimensionBarcode p codetype code size0 tr)) =
     written tr
     @ [[0x1d, 0x28, 0x6b, 0x03, 0x00] @ codetype @ [0x43]
          @ fmt_c (if size0 < 2 \<or> size0 > 16 then 3 else size0)]
     @ (if codetype = [0x31] then [[0x1d, 0x28, 0x6b, 0x03, 0x00] @ codetype @ [0x45, 0x30, 0x0A]]
        else [])
     @ [[0x1d, 0x28, 0x6b] @ fmt_c ((int (length code) + 3) smod 256)
          @ fmt_c ((int (length code) + 3) sdiv 256) @ codetype @ [0x50, 0x30] @ code,
        [0x1d, 0x28, 0x6b, 0x03, 0x00] @ codetype @ [0x51, 0x30, 0x0A]]"
  by (simp add: twodimensionBarcode_def Let_def written_write_cmd)

lemma twodimensionBarcode_nil: "fst (twodimensionBarcode p codetype code size0 tr) = None"
  by (simp add: twodimensionBarcode_def Let_def)

lemma twodimensionBarcode_default:
  "size0 < 2 \<or> size0 > 16 \<Longrightarrow>
     twodimensionBarcode p codetype code size0 tr = twodimensionBarcode p codetype code 3 tr"
  by (simp add: twodimensionBarcode_def)

lemma size_frame_nth:
  "written (snd (twodimensionBarcode p codetype code size0 tr)) ! length (written tr) =
     [0x1d, 0x28, 0x6b, 0x03, 0x00] @ codetype @ [0x43]
       @ fmt_c (if size0 < 2 \<or> size0 > 16 then 3 else size0)"
  by (simp add: twodimensionBarcode_written nth_append)

text \<open>
  C6. For a size outside [2,16] each of \<open>QR\<close>, \<open>PDF417\<close>, \<open>Aztec\<close> and
  \<open>DataMatrix\<close> behaves exactly as for size 3 (same result, same trace, hence the same
  size sub-frame, which carries the byte 03); for a size inside [2,16] the size sub-frame,
  the first frame the call writes, carries that size unchanged; and no size makes the call
  return an error.
\<close>

theorem twodimension_size_default:
  "(size0 < 2 \<or> 16 < size0 \<longrightarrow>
      QR p code size0 tr = QR p code 3 tr
      \<and> PDF417 p code size0 tr = PDF417 p code 3 tr
      \<and> Aztec p code size0 tr = Aztec p code 3 tr
      \<and> DataMatrix p code size0 tr = DataMatrix p code 3 tr
      \<and> written (snd (QR p code size0 tr)) ! length (written tr) =
          [0x1d, 0x28, 0x6b, 0x03, 0x00, 0x31, 0x43, 0x03])
   \<and> (2 \<le> size0 \<and> size0 \<le> 16 \<longrightarrow>
      written (snd (QR p code size0 tr)) ! length (written tr) =
          [0x1d, 0x28, 0x6b, 0x03, 0x00, 0x31, 0x43, word_of_int size0]
      \<and> written (snd (PDF417 p code size0 tr)) ! length (written tr) =
          [0x1d, 0x28, 0x6b, 0x03, 0x00, 0x30, 0x43, word_of_int size0]
      \<and> written (snd (Aztec p code size0 tr)) ! length (written tr) =
          [0x1d, 0x28, 0x6b, 0x03, 0x00, 0x35, 0x43, word_of_int size0]
      \<and> written (snd (DataMatrix p code size0 tr)) ! length (written tr) =
          [0x1d, 0x28, 0x6b, 0x03, 0x00, 0x36, 0x43, word_of_int size0])
   \<and> fst (QR p code size0 tr) = None \<and> fst (PDF417 p code size0 tr) = None
   \<and> fst (Aztec p code size0 tr) = None \<and> fst (DataMatrix p code size0 tr) = None"
proof -
  have out: "size0 < 2 \<or> 16 < size0 \<Longrightarrow>
      twodimensionBarcode p ct code size0 tr = twodimensionBarcode p ct code 3 tr" for ct
    by (rule twodimensionBarcode_default) simp
  have three: "size0 < 2 \<or> 16 < size0 \<Longrightarrow>
      written (snd (QR p code size0 tr)) ! length (written tr) =
        [0x1d, 0x28, 0x6b, 0x03, 0x00, 0x31, 0x43, 0x03]"
    unfolding QR_def size_frame_nth by (auto simp: fmt_c_ascii)
  have inside: "2 \<le> size0 \<and> size0 \<le> 16 \<Longrightarrow>
      written (snd (twodimensionBarcode p [c] code size0 tr)) ! length (written tr) =
        [0x1d, 0x28, 0x6b, 0x03, 0x00, c, 0x43, word_of_int size0]" for c
    unfolding size_frame_nth by (simp add: fmt_c_ascii)
  show ?thesis
    using out three inside
    by (simp add: QR_def PDF417_def Aztec_def DataMatrix_def twodimensionBarcode_nil)
qed

text \<open>The theorem at size 1 (outside the range) and at size 5 (inside), payload "AB".\<close>

theorem twodimension_size_default_witness:
  "((1::int) < 2 \<or> 16 < (1::int))
   \<and> QR (fst (NewPrinterByRW (steady_stream 0))) [0x41, 0x42] 1 []
       = QR (fst (NewPrinterByRW (steady_stream 0))) [0x41, 0x42] 3 []
   \<and> (2 \<le> (5::int) \<and> (5::int) \<le> 16)
   \<and> written (snd (QR (fst (NewPrinterByRW (steady_stream 0))) [0x41, 0x42] 5 [])) ! 0
       = [0x1d, 0x28, 0x6b, 0x03, 0x00, 0x31, 0x43, 0x05]"
  using twodimension_size_default [of 1 "fst (NewPrinterByRW (steady_stream 0))" "[0x41, 0x42]" "[]"]
    twodimension_size_default [of 5 "fst (NewPrinterByRW (steady_stream 0))" "[0x41, 0x42]" "[]"]
  by simp

section \<open>The status query\<close>

text \<open>
  C7. A call of \<open>GetErrorStatus\<close> makes exactly one write, of the bytes \<open>10 04 02\<close>.
  If that write fails with \<open>e\<close>, the call returns status 0 and \<open>e\<close>, and the write is
  the only call it made: no read. If the write succeeds, the call makes exactly one read,
  into a buffer of one byte; if the read fails with \<open>e\<close> the call returns status 0 and
  \<open>e\<close>, and if the read delivers the byte \<open>b\<close> without error the call returns \<open>b\<close>
  and no error.
\<close>

theorem GetErrorStatus_exchange:
  "written (snd (GetErrorStatus p tr)) = written tr @ [[0x10, 0x04, 0x02]]
   \<and> (Write (s p) tr [0x10, 0x04, 0x02] = Some e \<longrightarrow>
        GetErrorStatus p tr = ((0, Some e), tr @ [WriteCall [0x10, 0x04, 0x02] (Some e)])
        \<and> reads (snd (GetErrorStatus p tr)) = reads tr)
   \<and> (Write (s p) tr [0x10, 0x04, 0x02] = None \<longrightarrow>
        reads (snd (GetErrorStatus p tr)) = reads tr @ [1])
   \<and> (Write (s p) tr [0x10, 0x04, 0x02] = None
        \<and> Read (s p) (tr @ [WriteCall [0x10, 0x04, 0x02] None]) 1 = (got, Some e) \<longrightarrow>
        fst (GetErrorStatus p tr) = (0, Some e))
   \<and> (Write (s p) tr [0x10, 0x04, 0x02] = None
        \<and> Read (s p) (tr @ [WriteCall [0x10, 0x04, 0x02] None]) 1 = (b # rest, None) \<longrightarrow>
        fst (GetErrorStatus p tr) = (b, None))"
  by (auto simp: GetErrorStatus_def Let_def written_append reads_append split: prod.splits)

text \<open>
  The theorem on a stream whose write fails, on one whose read fails, and on one that
  answers with the status byte \<open>12\<close>.
\<close>

theorem GetErrorStatus_exchange_witness:
  "Write (s (fst (NewPrinterByRW broken_stream))) [] [0x10, 0x04, 0x02] = Some (Error 1)
   \<and> GetErrorStatus (fst (NewPrinterByRW broken_stream)) []
       = ((0, Some (Error 1)), [WriteCall [0x10, 0x04, 0x02] (Some (Error 1))])
   \<and> Write (s (fst (NewPrinterByRW mute_stream))) [] [0x10, 0x04, 0x02] = None
   \<and> Read (s (fst (NewPrinterByRW mute_stream))) [WriteCall [0x10, 0x04, 0x02] None] 1
       = ([], Some (Error 2))
   \<and> fst (GetErrorStatus (fst (NewPrinterByRW mute_stream)) []) = (0, Some (Error 2))
   \<and> Write (s (fst (NewPrinterByRW (steady_stream 0x12)))) [] [0x10, 0x04, 0x02] = None
   \<and> Read (s (fst (NewPrinterByRW (steady_stream 0x12)))) [WriteCall [0x10, 0x04, 0x02] None] 1
       = ([0x12], None)
   \<and> fst (GetErrorStatus (fst (NewPrinterByRW (steady_stream 0x12))) []) = (0x12, None)
   \<and> reads (snd (GetErrorStatus (fst (NewPrinterByRW (steady_stream 0x12))) [])) = [1]"
  using
    GetErrorStatus_exchange [of "fst (NewPrinterByRW broken_stream)" "[]" "Error 1" "[]" 0 "[]"]
    GetErrorStatus_exchange [of "fst (NewPrinterByRW mute_stream)" "[]" "Error 2" "[]" 0 "[]"]
    GetErrorStatus_exchange [of "fst (NewPrinterByRW (steady_stream 0x12))" "[]" "Error 1" "[]" "0x12" "[]"]
  by (simp add: NewPrinterByRW_def broken_stream_def mute_stream_def steady_stream_def)

section \<open>Bytes from \<open>0x80\<close> on under \<open>%c\<close>\<close>

text \<open>
  \<open>Size\<close>, \<open>PrintAreaWidth\<close> and the store-data frame of \<open>twodimensionBarcode\<close> print
  a computed byte with \<open>%c\<close>. The frame is the intended one as long as the byte is at
  most \<open>0x7F\<close>; from \<open>0x80\<close> on two bytes are written in its place.
\<close>

lemma Size_written_low:
  "push_bit 4 (width - 1) OR (height - 1) \<le> 0x7F \<Longrightarrow>
     written (snd (Size p width height tr)) =
       written tr @ [[0x1D, 0x21, push_bit 4 (width - 1) OR (height - 1)]]"
  by (simp add: Size_def written_write_cmd fmt_c_byte_low)

lemma Size_written_high:
  "0x80 \<le> push_bit 4 (width - 1) OR (height - 1) \<Longrightarrow>
     length (written (snd (Size p width height tr)) ! length (written tr)) = 4"
  by (simp add: Size_def written_write_cmd fmt_c_byte_high)

lemma Size_1_1:
  "written (snd (Size p 1 1 tr)) = written tr @ [[0x1D, 0x21, 0x00]]"
  by (simp add: Size_def written_write_cmd fmt_c_def utf8_AppendRune_def)

text \<open>
  C4, the code at \<open>Size(16, 16)\<close>: the packed byte is \<open>FF\<close>, and the call writes the
  four bytes \<open>1D 21 C3 BF\<close>, not the three bytes \<open>1D 21 FF\<close>.
\<close>

theorem Size_16_16:
  "written (snd (Size p 16 16 tr)) = written tr @ [[0x1D, 0x21, 0xC3, 0xBF]]"
  by (simp add: Size_def written_write_cmd fmt_c_def utf8_AppendRune_def)

lemma PrintAreaWidth_written:
  assumes "0 \<le> width" "width < 65536"
  shows "written (snd (PrintAreaWidth p width tr)) =
           written tr @ [[0x1D, 0x57] @ fmt_c (width mod 256) @ fmt_c (width div 256)]"
proof (cases "width < 256")
  case True
  with assms show ?thesis
    by (simp add: PrintAreaWidth_def written_write_cmd uint_word_of_int take_bit_eq_mod)
next
  case False
  with assms have "width div 256 < 256" by simp
  with False assms show ?thesis
    by (simp add: PrintAreaWidth_def written_write_cmd uint_word_of_int take_bit_eq_mod
        signed_divide_int_def signed_modulo_int_def)
qed

lemma PrintAreaWidth_written_low:
  assumes "0 \<le> width" "width mod 256 < 128" "width div 256 < 128"
  shows "written (snd (PrintAreaWidth p width tr)) =
           written tr @ [[0x1D, 0x57, word_of_int (width mod 256), word_of_int (width div 256)]]"
proof -
  from assms have "width < 65536" by simp
  with assms show ?thesis
    by (simp add: PrintAreaWidth_written fmt_c_ascii)
qed

lemma PrintAreaWidth_380:
  "written (snd (PrintAreaWidth p 380 tr)) = written tr @ [[0x1D, 0x57, 0x7C, 0x01]]"
  by (simp add: PrintAreaWidth_def written_write_cmd fmt_c_def utf8_AppendRune_def
      signed_divide_int_def signed_modulo_int_def)

text \<open>
  C3, the code at \<open>PrintAreaWidth(200)\<close>: the low byte is \<open>C8\<close>, and the call writes
  the five bytes \<open>1D 57 C3 88 00\<close>, not the four bytes \<open>1D 57 C8 00\<close>.
\<close>

theorem PrintAreaWidth_200:
  "written (snd (PrintAreaWidth p 200 tr)) = written tr @ [[0x1D, 0x57, 0xC3, 0x88, 0x00]]"
  by (simp add: PrintAreaWidth_def written_write_cmd fmt_c_def utf8_AppendRune_def)

text \<open>
  The number of frames of a two-dimensional symbol: four when the code type is QR's, with
  the error-correction frame second, and three otherwise.
\<close>

lemma twodimension_frame_count:
  "length (written (snd (twodimensionBarcode p codetype code size0 tr))) =
     length (written tr) + (if codetype = [0x31] then 4 else 3)"
  by (simp add: twodimensionBarcode_written)

lemma store_frame_low:
  assumes "(length code + 3) mod 256 < 128" "(length code + 3) div 256 < 128"
  shows "written (snd (twodimensionBarcode p codetype code size0 tr))
           ! (length (written tr) + (if codetype = [0x31] then 2 else 1)) =
         [0x1d, 0x28, 0x6b, of_nat ((length code + 3) mod 256), of_nat ((length code + 3) div 256)]
           @ codetype @ [0x50, 0x30] @ code"
proof -
  let ?n = "int (length code) + 3"
  have m: "?n smod 256 = int ((length code + 3) mod 256)"
    by (simp add: signed_modulo_int_def zmod_int)
  have q: "?n sdiv 256 = int ((length code + 3) div 256)"
    by (simp add: signed_divide_int_def zdiv_int)
  show ?thesis
    using assms
    by (simp add: twodimensionBarcode_written nth_append m q fmt_c_ascii)
qed

text \<open>
  C5, the code at \<open>QR\<close> with a payload of 125 bytes \<open>41\<close> and size 3: four frames in the
  order size, error correction, store, print; the payload length plus 3 is 128, and the
  length field of the store frame is the three bytes \<open>C2 80 00\<close>, not the two bytes
  \<open>80 00\<close>.
\<close>

theorem QR_125_store_frame:
  "written (snd (QR p (replicate 125 0x41) 3 tr)) =
     written tr @
     [[0x1d, 0x28, 0x6b, 0x03, 0x00, 0x31, 0x43, 0x03],
      [0x1d, 0x28, 0x6b, 0x03, 0x00, 0x31, 0x45, 0x30, 0x0A],
      [0x1d, 0x28, 0x6b, 0xC2, 0x80, 0x00, 0x31, 0x50, 0x30] @ replicate 125 0x41,
      [0x1d, 0x28, 0x6b, 0x03, 0x00, 0x31, 0x51, 0x30, 0x0A]]"
  by (simp add: QR_def twodimensionBarcode_written fmt_c_def utf8_AppendRune_def
      signed_divide_int_def signed_modulo_int_def)

text \<open>
  C2, the code at \<open>QR("AB", 3)\<close> on a stream whose every write fails: all four frames
  are handed to the stream although the first write already failed, and the call returns
  \<open>nil\<close>.
\<close>

theorem QR_broken_stream:
  "QR (fst (NewPrinterByRW broken_stream)) [0x41, 0x42] 3 [] =
     (None,
      [WriteCall [0x1d, 0x28, 0x6b, 0x03, 0x00, 0x31, 0x43, 0x03] (Some (Error 1)),
       WriteCall [0x1d, 0x28, 0x6b, 0x03, 0x00, 0x31, 0x45, 0x30, 0x0A] (Some (Error 1)),
       WriteCall [0x1d, 0x28, 0x6b, 0x05, 0x00, 0x31, 0x50, 0x30, 0x41, 0x42] (Some (Error 1)),
       WriteCall [0x1d, 0x28, 0x6b, 0x03, 0x00, 0x31, 0x51, 0x30, 0x0A] (Some (Error 1))])"
  by (simp add: QR_def twodimensionBarcode_def NewPrinterByRW_def broken_stream_def
      write_cmd_def WriteBytes_def fmt_c_def utf8_AppendRune_def Let_def
      signed_divide_int_def signed_modulo_int_def)

section \<open>The character set command in the two source files\<close>

lemma length_digits: "10 \<le> n \<Longrightarrow> 2 \<le> length (digits n)"
  by (subst digits.simps, subst digits.simps) simp

text \<open>For no index do the two variants write the same bytes.\<close>

lemma SetCharacterSet_variants_differ:
  "written (snd (SetCharacterSet p n tr))
     \<noteq> written (snd (SetCharacterSet_part_000 p (uint n) tr))"
proof (cases "unat n < 10")
  case True
  have "n \<noteq> 0x30 + n" by simp
  with True show ?thesis
    by (simp add: SetCharacterSet_def SetCharacterSet_part_000_def written_write_cmd
        written_WriteBytes fmt_d_def digits.simps [of "unat n"])
next
  case False
  then have "2 \<le> length (digits (unat n))" by (simp add: length_digits)
  then have "digits (unat n) \<noteq> [n]" by auto
  then show ?thesis
    by (simp add: SetCharacterSet_def SetCharacterSet_part_000_def written_write_cmd
        written_WriteBytes fmt_d_def)
qed

text \<open>
  C10, the two variants at index 15: src/epson.go writes \<open>1B 52 0F\<close>,
  src/unnamed/part_000 writes \<open>1B 52 31 35\<close>, the digits "15".
\<close>

theorem SetCharacterSet_15:
  "written (snd (SetCharacterSet p 15 tr)) = written tr @ [[0x1B, 0x52, 0x0F]]
   \<and> written (snd (SetCharacterSet_part_000 p 15 tr)) = written tr @ [[0x1B, 0x52, 0x31, 0x35]]"
  by (simp add: SetCharacterSet_def SetCharacterSet_part_000_def written_write_cmd
      written_WriteBytes fmt_d_def digits.simps)

section \<open>The payload frame of a one-dimensional barcode\<close>

text \<open>
  On a stream whose writes succeed, the first three frames of \<open>Barcode\<close>: for the seven
  types UPC-A to CODABAR the payload frame is \<open>1D 6B\<close>, the type's byte, the payload and a
  null byte; for CODE128 the decimal digits of the payload length stand between the type's
  byte and the payload, and the null byte is still there.
\<close>

lemma write_cmd_ok: "\<forall>t x. Write (s p) t x = None \<Longrightarrow> fst (write_cmd p cmd tr) = None"
  by (simp add: write_cmd_def WriteBytes_def Let_def)

lemma written_Print_grows: "\<exists>ws. written (snd (Print d p data tr)) = written tr @ ws"
  by (simp add: Print_def Let_def case_prod_beta written_write_cmd written_append)

lemma written_PrintLn_grows: "\<exists>ws. written (snd (PrintLn d p data tr)) = written tr @ ws"
proof -
  obtain ws where "written (snd (Print d p data tr)) = written tr @ ws"
    using written_Print_grows by blast
  then show ?thesis
    by (simp add: PrintLn_def Let_def case_prod_beta written_write_cmd)
qed

lemma Barcode_null_terminated:
  assumes ok: "\<forall>t x. Write (s p) t x = None"
    and "format \<noteq> BarcodeTypeCODE128" and "\<forall>v. format \<noteq> BarcodeTypeOther v"
  shows "take 3 (drop (length (written tr)) (written (snd (Barcode d p barcode format tr)))) =
     [[0x1d, 0x77, 0x04, 0x1d, 0x68, 0x64], [0x1d, 0x66, 0x00],
      [0x1d, 0x6b, barcode_code d format] @ barcode @ [0x00]]"
proof -
  let ?t3 = "snd (write_cmd p ([0x1d, 0x6b] @ [barcode_code d format] @ barcode @ [0x00])
                (snd (write_cmd p [0x1d, 0x66, 0x00]
                   (snd (write_cmd p [0x1d, 0x77, 0x04, 0x1d, 0x68, 0x64] tr)))))"
  from assms(2,3) have seven:
    "format \<in> set [BarcodeTypeUPCA, BarcodeTypeUPCE, BarcodeTypeEAN13, BarcodeTypeEAN8,
                     BarcodeTypeCODE39, BarcodeTypeITF, BarcodeTypeCODABAR]"
    by (cases format) simp_all
  obtain ws where "written (snd (PrintLn d p barcode ?t3)) = written ?t3 @ ws"
    using written_PrintLn_grows by blast
  with seven show ?thesis
    by (simp add: Barcode_def Let_def case_prod_beta write_cmd_ok [OF ok] written_write_cmd
        del: set_simps)
qed

lemma Barcode_CODE128_frame:
  assumes ok: "\<forall>t x. Write (s p) t x = None"
  shows "take 3 (drop (length (written tr))
            (written (snd (Barcode d p barcode BarcodeTypeCODE128 tr)))) =
     [[0x1d, 0x77, 0x04, 0x1d, 0x68, 0x64], [0x1d, 0x66, 0x00],
      [0x1d, 0x6b, barcode_code d BarcodeTypeCODE128] @ fmt_d (int (length barcode))
        @ barcode @ [0x00]]"
proof -
  let ?t3 = "snd (write_cmd p ([0x1d, 0x6b] @ [barcode_code d BarcodeTypeCODE128]
                   @ fmt_d (int (length barcode)) @ barcode @ [0x00])
                (snd (write_cmd p [0x1d, 0x66, 0x00]
                   (snd (write_cmd p [0x1d, 0x77, 0x04, 0x1d, 0x68, 0x64] tr)))))"
  obtain ws where "written (snd (PrintLn d p barcode ?t3)) = written ?t3 @ ws"
    using written_PrintLn_grows by blast
  then show ?thesis
    by (simp add: Barcode_def Let_def case_prod_beta write_cmd_ok [OF ok] written_write_cmd)
qed

text \<open>A value that is none of the eight constants panics once the set-up frames are out.\<close>

lemma Barcode_unimplemented:
  assumes ok: "\<forall>t x. Write (s p) t x = None"
  shows "fst (Barcode d p barcode (BarcodeTypeOther v) tr) = Panic ''unimplemented barcode''"
  by (simp add: Barcode_def Let_def case_prod_beta write_cmd_ok [OF ok])

lemma steady_stream_ok:
  "\<forall>t x. Write (s (fst (NewPrinterByRW (steady_stream st)))) t x = None"
  by (simp add: NewPrinterByRW_def steady_stream_def)

text \<open>
  C1, the code at \<open>Barcode("12345678", CODE128)\<close> on a stream whose writes succeed: the
  payload frame, the third write, is \<open>1D 6B\<close>, the type's byte, then \<open>38\<close> (the digit
  "8", not the byte \<open>08\<close>), the eight payload bytes and a trailing \<open>00\<close>.
\<close>

theorem Barcode_CODE128_12345678:
  "take 3 (written (snd (Barcode d (fst (NewPrinterByRW (steady_stream 0)))
       [0x31, 0x32, 0x33, 0x34, 0x35, 0x36, 0x37, 0x38] BarcodeTypeCODE128 []))) =
     [[0x1d, 0x77, 0x04, 0x1d, 0x68, 0x64],
      [0x1d, 0x66, 0x00],
      [0x1d, 0x6b, barcode_code d BarcodeTypeCODE128, 0x38,
       0x31, 0x32, 0x33, 0x34, 0x35, 0x36, 0x37, 0x38, 0x00]]"
  using Barcode_CODE128_frame [OF steady_stream_ok, where tr = "[]" and d = d
      and barcode = "[0x31, 0x32, 0x33, 0x34, 0x35, 0x36, 0x37, 0x38]"]
  by (simp add: fmt_d_def digits.simps)

end
